theory Spec2Isabelle
  imports Main "HOL-Library.Word"
begin

section \<open>Node snapshots and event payloads\<close>

text \<open>
  A \<^verbatim>\<open>*v1.Node\<close> is modelled by the parts the cache can observe: the object
  metadata (the name, the annotation map and everything else in \<^verbatim>\<open>ObjectMeta\<close>),
  the type metadata, the spec and the status. Parts the cache never inspects are opaque
  strings; they only take part in the structural comparison of \<^verbatim>\<open>cmp.Equal\<close>.
  A Go map may be \<^verbatim>\<open>nil\<close>: \<open>None\<close> is the nil map, \<open>Some m\<close> an allocated one.
\<close>

type_synonym uint32 = "32 word"

record ObjectMeta =
  Name :: string
  Annotations :: "(string \<rightharpoonup> string) option"
  OtherMeta :: string

record Node =
  TypeMeta :: string
  ObjectMeta :: ObjectMeta
  Spec :: string
  Status :: string

text \<open>
  The payload of an event is an \<^verbatim>\<open>interface{}\<close>. The cache distinguishes a node
  snapshot (a non-nil \<^verbatim>\<open>*v1.Node\<close>), the tombstone
  \<^verbatim>\<open>cache.DeletedFinalStateUnknown{Key, Obj}\<close>, and any other dynamic type
  (for instance \<^verbatim>\<open>*v1.Endpoints\<close>), which is kept as an opaque description.
\<close>

datatype obj =
    NodeObj Node
  | DeletedFinalStateUnknown string obj
  | OtherObj string

text \<open>Reading a Go map: the value and the \<^verbatim>\<open>ok\<close> flag as an option; a nil map has no key.\<close>

definition map_index :: "('k \<rightharpoonup> 'v) option \<Rightarrow> 'k \<Rightarrow> 'v option" where
  "map_index m k = (case m of None \<Rightarrow> None | Some f \<Rightarrow> f k)"

section \<open>The weight resolver\<close>

text \<open>
  \<^verbatim>\<open>strconv.ParseUint(s, 10, 32)\<close> of the Go standard library: the empty string is a
  syntax error; the bytes are read left to right, a byte that is not a decimal digit is a
  syntax error, and a prefix whose value leaves the range of the bit size is a range
  error. The \<^verbatim>\<open>uint64\<close> result is given by its value.
\<close>

datatype NumError = ErrSyntax | ErrRange

definition is_digit :: "char \<Rightarrow> bool" where
  "is_digit c = (of_char (CHR ''0'') \<le> (of_char c :: nat) \<and> (of_char c :: nat) \<le> of_char (CHR ''9''))"

definition digit_of :: "char \<Rightarrow> nat" where
  "digit_of c = of_char c - of_char (CHR ''0'')"

definition cutoff64 :: nat where
  "cutoff64 = (2 ^ 64 - 1) div 10 + 1"

definition maxVal32 :: nat where
  "maxVal32 = 2 ^ 32 - 1"

fun ParseUint_loop :: "nat \<Rightarrow> string \<Rightarrow> NumError + nat" where
  "ParseUint_loop n [] = Inr n"
| "ParseUint_loop n (c # cs) =
     (if \<not> is_digit c then Inl ErrSyntax
      else if cutoff64 \<le> n then Inl ErrRange
      else if maxVal32 < n * 10 + digit_of c then Inl ErrRange
      else ParseUint_loop (n * 10 + digit_of c) cs)"

definition ParseUint_10_32 :: "string \<Rightarrow> NumError + nat" where
  "ParseUint_10_32 s = (if s = [] then Inl ErrSyntax else ParseUint_loop 0 s)"

definition normalizeWeight :: "uint32 \<Rightarrow> uint32 \<Rightarrow> uint32" where
  "normalizeWeight weight defaultWeight =
     (if 128 < weight then defaultWeight else weight)"

definition resolveNodeWeight :: "ObjectMeta \<Rightarrow> string \<Rightarrow> uint32 \<Rightarrow> uint32" where
  "resolveNodeWeight meta annotationName defaultValue =
     (let weight =
        (case map_index (Annotations meta) annotationName of
           Some annotationStringValue \<Rightarrow>
             (case ParseUint_10_32 annotationStringValue of
                Inr nweight \<Rightarrow> word_of_nat nweight
              | Inl cerr \<Rightarrow> defaultValue)
         | None \<Rightarrow> defaultValue)
      in normalizeWeight weight defaultValue)"

text \<open>
  The resolver as the specification words it: the decimal reading of a string, and the
  three-way case distinction on the annotation.
\<close>

definition decimal_value :: "string \<Rightarrow> nat" where
  "decimal_value s = foldl (\<lambda>n c. n * 10 + digit_of c) 0 s"

definition parses_uint32 :: "string \<Rightarrow> bool" where
  "parses_uint32 s = (s \<noteq> [] \<and> list_all is_digit s \<and> decimal_value s < 2 ^ 32)"

definition resolve_spec :: "(string \<rightharpoonup> string) option \<Rightarrow> string \<Rightarrow> uint32 \<Rightarrow> uint32" where
  "resolve_spec annotations key dflt =
     (case map_index annotations key of
        None \<Rightarrow> dflt
      | Some v \<Rightarrow>
          if \<not> parses_uint32 v then dflt
          else if 128 < decimal_value v then dflt
          else word_of_nat (decimal_value v))"

section \<open>The node weight cache\<close>

text \<open>
  The cache's effects on its collaborators are outputs of the model: the logger holds the
  diagnostics written with \<^verbatim>\<open>Errorf\<close>, oldest first, and \<open>Next\<close> is \<open>None\<close> when
  no downstream handler is configured and otherwise holds the calls the handler has
  received, oldest first, each with its arguments.
\<close>

datatype diag = UnexpectedOnAdd obj | UnexpectedOnUpdate obj | UnexpectedOnDelete obj

datatype handler_call = CallOnAdd obj | CallOnUpdate obj obj | CallOnDelete obj

record NodeWeightCache =
  FieldLogger :: "diag list"
  Next :: "handler_call list option"
  NodeWeightAnnotation :: string
  DefaultNodeWeight :: uint32
  nodeWeights :: "string \<rightharpoonup> uint32"

definition NewNodeWeightCache :: "string \<Rightarrow> uint32 \<Rightarrow> NodeWeightCache" where
  "NewNodeWeightCache nodeWeightAnnotation defaultNodeWeight =
     \<lparr>FieldLogger = [], Next = None,
      NodeWeightAnnotation = nodeWeightAnnotation,
      DefaultNodeWeight = defaultNodeWeight,
      nodeWeights = Map.empty\<rparr>"

text \<open>Indexing \<^verbatim>\<open>map[string]uint32\<close> without the \<^verbatim>\<open>ok\<close> flag: a missing key reads as 0.\<close>

definition weight_at :: "(string \<rightharpoonup> uint32) \<Rightarrow> string \<Rightarrow> uint32" where
  "weight_at m k = (case m k of None \<Rightarrow> 0 | Some w \<Rightarrow> w)"

definition GetWeightOfNode :: "NodeWeightCache \<Rightarrow> string \<Rightarrow> uint32" where
  "GetWeightOfNode c nodeName =
     (let nodeWeight = weight_at (nodeWeights c) nodeName
      in if nodeWeight = 0 then DefaultNodeWeight c else nodeWeight)"

definition updateNodeWeight :: "Node \<Rightarrow> NodeWeightCache \<Rightarrow> NodeWeightCache" where
  "updateNodeWeight node c =
     (let weight = resolveNodeWeight (ObjectMeta node) (NodeWeightAnnotation c) (DefaultNodeWeight c);
          previousWeight = weight_at (nodeWeights c) (Name (ObjectMeta node));
          changed = (previousWeight \<noteq> weight)
      in if changed
         then c\<lparr>nodeWeights := (nodeWeights c)(Name (ObjectMeta node) \<mapsto> weight)\<rparr>
         else c)"

definition deleteNodeWeight :: "Node \<Rightarrow> NodeWeightCache \<Rightarrow> NodeWeightCache" where
  "deleteNodeWeight node c =
     c\<lparr>nodeWeights := (nodeWeights c)(Name (ObjectMeta node) := None)\<rparr>"

definition Errorf :: "diag \<Rightarrow> NodeWeightCache \<Rightarrow> NodeWeightCache" where
  "Errorf d c = c\<lparr>FieldLogger := FieldLogger c @ [d]\<rparr>"

text \<open>\<^verbatim>\<open>if c.Next != nil { c.Next.On...(...) }\<close>\<close>

definition call_Next :: "handler_call \<Rightarrow> NodeWeightCache \<Rightarrow> NodeWeightCache" where
  "call_Next k c =
     (case Next c of None \<Rightarrow> c | Some received \<Rightarrow> c\<lparr>Next := Some (received @ [k])\<rparr>)"

text \<open>
  \<^verbatim>\<open>cmp.Equal(oldObj, newObj, cmpopts.IgnoreFields(v1.Node{}, "Status"))\<close> with
  \<^verbatim>\<open>newObj\<close> a node: values of different dynamic types are never equal, and two
  nodes are equal when all their fields but \<^verbatim>\<open>Status\<close> are.
\<close>

definition cmp_Equal_IgnoreStatus :: "obj \<Rightarrow> Node \<Rightarrow> bool" where
  "cmp_Equal_IgnoreStatus oldObj newNode =
     (case oldObj of
        NodeObj oldNode \<Rightarrow>
          TypeMeta oldNode = TypeMeta newNode \<and>
          ObjectMeta oldNode = ObjectMeta newNode \<and>
          Spec oldNode = Spec newNode
      | _ \<Rightarrow> False)"

definition OnAdd :: "obj \<Rightarrow> NodeWeightCache \<Rightarrow> NodeWeightCache" where
  "OnAdd obj c =
     call_Next (CallOnAdd obj)
       (case obj of
          NodeObj node \<Rightarrow> updateNodeWeight node c
        | _ \<Rightarrow> Errorf (UnexpectedOnAdd obj) c)"

definition OnUpdate :: "obj \<Rightarrow> obj \<Rightarrow> NodeWeightCache \<Rightarrow> NodeWeightCache" where
  "OnUpdate oldObj newObj c =
     call_Next (CallOnUpdate oldObj newObj)
       (case newObj of
          NodeObj node \<Rightarrow>
            if \<not> cmp_Equal_IgnoreStatus oldObj node then updateNodeWeight node c else c
        | _ \<Rightarrow> Errorf (UnexpectedOnUpdate newObj) c)"

fun OnDelete :: "obj \<Rightarrow> NodeWeightCache \<Rightarrow> NodeWeightCache" where
  "OnDelete (NodeObj node) c =
     call_Next (CallOnDelete (NodeObj node)) (deleteNodeWeight node c)"
| "OnDelete (DeletedFinalStateUnknown key inner) c =
     call_Next (CallOnDelete (DeletedFinalStateUnknown key inner)) (OnDelete inner c)"
| "OnDelete (OtherObj t) c =
     call_Next (CallOnDelete (OtherObj t)) (Errorf (UnexpectedOnDelete (OtherObj t)) c)"

text \<open>
  The informer delivers events one at a time; a run of the cache is the events handled in
  delivery order. \<^verbatim>\<open>GetWeightOfNode\<close> only reads the cache, so it is no step of a run.
\<close>

datatype event = EvOnAdd obj | EvOnUpdate obj obj | EvOnDelete obj

fun dispatch :: "event \<Rightarrow> NodeWeightCache \<Rightarrow> NodeWeightCache" where
  "dispatch (EvOnAdd obj) c = OnAdd obj c"
| "dispatch (EvOnUpdate oldObj newObj) c = OnUpdate oldObj newObj c"
| "dispatch (EvOnDelete obj) c = OnDelete obj c"

definition deliver :: "event list \<Rightarrow> NodeWeightCache \<Rightarrow> NodeWeightCache" where
  "deliver evs c = fold dispatch evs c"

text \<open>A payload is a node snapshot; a payload or an event carries a snapshot of a given name.\<close>

fun is_node :: "obj \<Rightarrow> bool" where
  "is_node (NodeObj node) = True"
| "is_node (DeletedFinalStateUnknown key inner) = False"
| "is_node (OtherObj t) = False"

fun obj_names :: "string \<Rightarrow> obj \<Rightarrow> bool" where
  "obj_names name (NodeObj node) = (Name (ObjectMeta node) = name)"
| "obj_names name (DeletedFinalStateUnknown key inner) = obj_names name inner"
| "obj_names name (OtherObj t) = False"

fun event_names :: "string \<Rightarrow> event \<Rightarrow> bool" where
  "event_names name (EvOnAdd obj) = obj_names name obj"
| "event_names name (EvOnUpdate oldObj newObj) = (obj_names name oldObj \<or> obj_names name newObj)"
| "event_names name (EvOnDelete obj) = obj_names name obj"

text \<open>
  The payloads of the repository's test table: a node or an endpoints object named
  \<^verbatim>\<open>node1\<close> with one annotation, and the cache the tests build.
\<close>

definition test_node :: "string \<Rightarrow> string \<Rightarrow> Node" where
  "test_node key v =
     \<lparr>TypeMeta = [],
      ObjectMeta = \<lparr>Name = ''node1'', Annotations = Some [key \<mapsto> v], OtherMeta = []\<rparr>,
      Spec = [], Status = []\<rparr>"

definition test_endpoints :: obj where
  "test_endpoints = OtherObj ''*v1.Endpoints''"

definition test_cache :: "uint32 \<Rightarrow> NodeWeightCache" where
  "test_cache defaultNodeWeight = NewNodeWeightCache ''weight-annotation'' defaultNodeWeight"

text \<open>
  The calls a downstream handler receives from one \<^verbatim>\<open>OnDelete\<close>, oldest first: the
  recursive call on the inner object of a tombstone forwards before the outer call does.
\<close>

fun delete_calls :: "obj \<Rightarrow> handler_call list" where
  "delete_calls (NodeObj node) = [CallOnDelete (NodeObj node)]"
| "delete_calls (DeletedFinalStateUnknown key inner) =
     delete_calls inner @ [CallOnDelete (DeletedFinalStateUnknown key inner)]"
| "delete_calls (OtherObj t) = [CallOnDelete (OtherObj t)]"

text \<open>
  The bound on the weight table that the code maintains: a stored weight is at most 128,
  or it is the configured default.
\<close>

definition weights_ok :: "NodeWeightCache \<Rightarrow> bool" where
  "weights_ok c =
     (\<forall>name w. nodeWeights c name = Some w \<longrightarrow> w \<le> 128 \<or> w = DefaultNodeWeight c)"

section \<open>Envoy load-balancer endpoints\<close>

text \<open>
  \<^verbatim>\<open>internal/envoy/v3/endpoint.go\<close>. The address is the caller's
  \<^verbatim>\<open>*envoy_core_v3.Address\<close>, of any type \<open>'a\<close>. The fields of the protobuf
  messages that the builders leave at their zero value are left out. The helper
  \<^verbatim>\<open>protobuf.UInt32\<close>, which wraps a number into the message type \<open>'v\<close> of the
  weight field, is a parameter of the functions that call it.
\<close>

record 'a Endpoint =
  Address :: 'a

datatype 'a LbEndpoint_HostIdentifier =
    LbEndpoint_Endpoint "'a Endpoint"
  | LbEndpoint_EndpointName string

record ('a, 'v) LbEndpoint =
  HostIdentifier :: "'a LbEndpoint_HostIdentifier option"
  LoadBalancingWeight :: "'v option"

definition NoWeight :: uint32 where
  "NoWeight = 0"

definition WeightedLBEndpoint :: "(uint32 \<Rightarrow> 'v) \<Rightarrow> uint32 \<Rightarrow> 'a \<Rightarrow> ('a, 'v) LbEndpoint" where
  "WeightedLBEndpoint UInt32 weight addr =
     (let endpoint =
        \<lparr>HostIdentifier = Some (LbEndpoint_Endpoint \<lparr>Address = addr\<rparr>),
         LoadBalancingWeight = None\<rparr>
      in if 0 < weight
         then endpoint\<lparr>LoadBalancingWeight := Some (UInt32 weight)\<rparr>
         else endpoint)"

definition LBEndpoint :: "(uint32 \<Rightarrow> 'v) \<Rightarrow> 'a \<Rightarrow> ('a, 'v) LbEndpoint" where
  "LBEndpoint UInt32 addr = WeightedLBEndpoint UInt32 NoWeight addr"

text \<open>The address an endpoint was built for, if its host identifier is an endpoint.\<close>

definition endpoint_address :: "('a, 'v) LbEndpoint \<Rightarrow> 'a option" where
  "endpoint_address e =
     (case HostIdentifier e of
        Some (LbEndpoint_Endpoint ep) \<Rightarrow> Some (Address ep)
      | _ \<Rightarrow> None)"

section \<open>Properties of the resolver\<close>

lemma foldl_digits_ge: "n \<le> foldl (\<lambda>n c. n * 10 + digit_of c) n s"
proof (induction s arbitrary: n)
  case Nil
  show ?case by simp
next
  case (Cons c cs)
  have "n \<le> n * 10 + digit_of c" by simp
  also have "\<dots> \<le> foldl (\<lambda>n c. n * 10 + digit_of c) (n * 10 + digit_of c) cs"
    by (rule Cons.IH)
  finally show ?case by simp
qed

lemma maxVal32_less_cutoff64: "maxVal32 < cutoff64"
  by (simp add: maxVal32_def cutoff64_def)

lemma ParseUint_loop_Inr:
  "n \<le> maxVal32 \<Longrightarrow>
   ParseUint_loop n s = Inr m \<longleftrightarrow>
     list_all is_digit s \<and> foldl (\<lambda>n c. n * 10 + digit_of c) n s = m \<and> m \<le> maxVal32"
proof (induction s arbitrary: n)
  case Nil
  then show ?case by auto
next
  case (Cons c cs)
  let ?n' = "n * 10 + digit_of c"
  show ?case
  proof (cases "is_digit c")
    case False
    then show ?thesis by simp
  next
    case True
    have nc: "\<not> cutoff64 \<le> n" using Cons.prems maxVal32_less_cutoff64 by linarith
    show ?thesis
    proof (cases "maxVal32 < ?n'")
      case over: True
      have "?n' \<le> foldl (\<lambda>n c. n * 10 + digit_of c) ?n' cs" by (rule foldl_digits_ge)
      with over have "\<not> foldl (\<lambda>n c. n * 10 + digit_of c) ?n' cs \<le> maxVal32" by linarith
      with True nc over show ?thesis by auto
    next
      case False
      then have "?n' \<le> maxVal32" by simp
      from Cons.IH [OF this] True nc False show ?thesis by simp
    qed
  qed
qed

lemma ParseUint_10_32_Inr:
  "ParseUint_10_32 s = Inr m \<longleftrightarrow> parses_uint32 s \<and> decimal_value s = m"
  using ParseUint_loop_Inr [of 0 s m]
  by (auto simp: ParseUint_10_32_def parses_uint32_def decimal_value_def maxVal32_def)



lemmas parse_eval = ParseUint_10_32_def is_digit_def digit_of_def cutoff64_def maxVal32_def

lemma unat_word_of_nat_uint32: "n < 2 ^ 32 \<Longrightarrow> unat (word_of_nat n :: uint32) = n"
  by (simp add: unat_of_nat)

lemma word_of_nat_gt_128: "n < 2 ^ 32 \<Longrightarrow> (128 < (word_of_nat n :: uint32)) = (128 < n)"
  by (simp add: word_less_nat_alt unat_word_of_nat_uint32)

lemma word_of_nat_eq_0: "n < 2 ^ 32 \<Longrightarrow> ((word_of_nat n :: uint32) = 0) = (n = 0)"
  using unat_word_of_nat_uint32 [of n] unat_0_iff [of "word_of_nat n :: uint32"] by simp

lemma normalizeWeight_same: "normalizeWeight d d = d"
  by (simp add: normalizeWeight_def)

lemma ParseUint_10_32_Inl: "ParseUint_10_32 s = Inl e \<Longrightarrow> \<not> parses_uint32 s"
  using ParseUint_10_32_Inr [of s "decimal_value s"] by auto

text \<open>
  Claim C2. The resolver computes what the specification describes: the default when the
  key is absent from the annotations or its value is not a string of decimal digits whose
  value fits in 32 bits, the default when the parsed value exceeds 128, and the parsed
  value itself (0 included) otherwise. It depends on the annotation map, the key and the
  default only: no other part of the metadata enters the result.
\<close>

theorem resolveNodeWeight_refines_spec:
  "resolveNodeWeight meta key d = resolve_spec (Annotations meta) key d"
proof (cases "map_index (Annotations meta) key")
  case None
  then show ?thesis
    by (simp add: resolveNodeWeight_def resolve_spec_def normalizeWeight_same)
next
  case (Some v)
  show ?thesis
  proof (cases "ParseUint_10_32 v")
    case (Inl e)
    with Some ParseUint_10_32_Inl [OF Inl] show ?thesis
      by (simp add: resolveNodeWeight_def resolve_spec_def normalizeWeight_same)
  next
    case (Inr n)
    then have p: "parses_uint32 v" and n: "decimal_value v = n"
      by (simp_all add: ParseUint_10_32_Inr)
    from p n have "n < 2 ^ 32" by (simp add: parses_uint32_def)
    with Some Inr p n show ?thesis
      by (simp add: resolveNodeWeight_def resolve_spec_def normalizeWeight_def word_of_nat_gt_128)
  qed
qed

section \<open>Fields the operations leave alone\<close>

lemma call_Next_fields [simp]:
  "nodeWeights (call_Next k c) = nodeWeights c"
  "DefaultNodeWeight (call_Next k c) = DefaultNodeWeight c"
  "NodeWeightAnnotation (call_Next k c) = NodeWeightAnnotation c"
  "FieldLogger (call_Next k c) = FieldLogger c"
  "Next (call_Next k c) = map_option (\<lambda>received. received @ [k]) (Next c)"
  by (simp_all add: call_Next_def split: option.split)

lemma Errorf_fields [simp]:
  "nodeWeights (Errorf d c) = nodeWeights c"
  "DefaultNodeWeight (Errorf d c) = DefaultNodeWeight c"
  "NodeWeightAnnotation (Errorf d c) = NodeWeightAnnotation c"
  "FieldLogger (Errorf d c) = FieldLogger c @ [d]"
  "Next (Errorf d c) = Next c"
  by (simp_all add: Errorf_def)

lemma updateNodeWeight_fields [simp]:
  "DefaultNodeWeight (updateNodeWeight node c) = DefaultNodeWeight c"
  "NodeWeightAnnotation (updateNodeWeight node c) = NodeWeightAnnotation c"
  "FieldLogger (updateNodeWeight node c) = FieldLogger c"
  "Next (updateNodeWeight node c) = Next c"
  by (simp_all add: updateNodeWeight_def Let_def)

lemma deleteNodeWeight_fields [simp]:
  "nodeWeights (deleteNodeWeight node c) = (nodeWeights c)(Name (ObjectMeta node) := None)"
  "DefaultNodeWeight (deleteNodeWeight node c) = DefaultNodeWeight c"
  "NodeWeightAnnotation (deleteNodeWeight node c) = NodeWeightAnnotation c"
  "FieldLogger (deleteNodeWeight node c) = FieldLogger c"
  "Next (deleteNodeWeight node c) = Next c"
  by (simp_all add: deleteNodeWeight_def)

lemma NewNodeWeightCache_fields [simp]:
  "nodeWeights (NewNodeWeightCache key d) = Map.empty"
  "DefaultNodeWeight (NewNodeWeightCache key d) = d"
  "NodeWeightAnnotation (NewNodeWeightCache key d) = key"
  "FieldLogger (NewNodeWeightCache key d) = []"
  "Next (NewNodeWeightCache key d) = None"
  by (simp_all add: NewNodeWeightCache_def)

text \<open>What \<^verbatim>\<open>updateNodeWeight\<close> leaves in the table.\<close>

lemma nodeWeights_updateNodeWeight:
  "nodeWeights (updateNodeWeight node c) =
     (let weight = resolveNodeWeight (ObjectMeta node) (NodeWeightAnnotation c) (DefaultNodeWeight c)
      in if weight_at (nodeWeights c) (Name (ObjectMeta node)) \<noteq> weight
         then (nodeWeights c)(Name (ObjectMeta node) \<mapsto> weight)
         else nodeWeights c)"
  by (simp add: updateNodeWeight_def Let_def)

lemma nodeWeights_updateNodeWeight_other:
  "name \<noteq> Name (ObjectMeta node) \<Longrightarrow>
   nodeWeights (updateNodeWeight node c) name = nodeWeights c name"
  by (simp add: nodeWeights_updateNodeWeight Let_def)

lemma weight_at_updateNodeWeight:
  "weight_at (nodeWeights (updateNodeWeight node c)) (Name (ObjectMeta node)) =
     resolveNodeWeight (ObjectMeta node) (NodeWeightAnnotation c) (DefaultNodeWeight c)"
  by (simp add: nodeWeights_updateNodeWeight Let_def weight_at_def)

lemma OnDelete_config [simp]:
  "DefaultNodeWeight (OnDelete obj c) = DefaultNodeWeight c"
  "NodeWeightAnnotation (OnDelete obj c) = NodeWeightAnnotation c"
  by (induction obj arbitrary: c) simp_all

lemma OnAdd_config [simp]:
  "DefaultNodeWeight (OnAdd obj c) = DefaultNodeWeight c"
  "NodeWeightAnnotation (OnAdd obj c) = NodeWeightAnnotation c"
  by (simp_all add: OnAdd_def split: obj.split)

lemma OnUpdate_config [simp]:
  "DefaultNodeWeight (OnUpdate oldObj newObj c) = DefaultNodeWeight c"
  "NodeWeightAnnotation (OnUpdate oldObj newObj c) = NodeWeightAnnotation c"
  by (simp_all add: OnUpdate_def split: obj.split)

lemma dispatch_config [simp]:
  "DefaultNodeWeight (dispatch ev c) = DefaultNodeWeight c"
  "NodeWeightAnnotation (dispatch ev c) = NodeWeightAnnotation c"
  by (cases ev; simp)+

lemma deliver_config [simp]:
  "DefaultNodeWeight (deliver evs c) = DefaultNodeWeight c"
  "NodeWeightAnnotation (deliver evs c) = NodeWeightAnnotation c"
  by (induction evs arbitrary: c; simp add: deliver_def)+

lemma OnDelete_unnamed:
  "\<not> obj_names name obj \<Longrightarrow> nodeWeights (OnDelete obj c) name = nodeWeights c name"
  by (induction obj arbitrary: c) auto

lemma OnAdd_unnamed:
  "\<not> obj_names name obj \<Longrightarrow> nodeWeights (OnAdd obj c) name = nodeWeights c name"
  by (cases obj) (auto simp: OnAdd_def nodeWeights_updateNodeWeight_other)

lemma OnUpdate_unnamed:
  "\<not> obj_names name newObj \<Longrightarrow> nodeWeights (OnUpdate oldObj newObj c) name = nodeWeights c name"
  by (cases newObj) (auto simp: OnUpdate_def nodeWeights_updateNodeWeight_other)

lemma dispatch_unnamed:
  "\<not> event_names name ev \<Longrightarrow> nodeWeights (dispatch ev c) name = nodeWeights c name"
  by (cases ev) (simp_all add: OnAdd_unnamed OnUpdate_unnamed OnDelete_unnamed)

lemma deliver_unnamed:
  "list_all (\<lambda>ev. \<not> event_names name ev) evs \<Longrightarrow>
   nodeWeights (deliver evs c) name = nodeWeights c name"
  by (induction evs arbitrary: c) (simp_all add: deliver_def dispatch_unnamed)

section \<open>Reading the cache\<close>

text \<open>
  Claim C3. \<^verbatim>\<open>GetWeightOfNode\<close> returns the value the weight table stores for the
  name, except that it returns the configured default when the table has no entry for the
  name or the stored value is 0. A name that no delivered event has carried has no entry
  in a cache built by \<^verbatim>\<open>NewNodeWeightCache\<close>, so it reads as the configured default.
\<close>

theorem GetWeightOfNode_lookup:
  "GetWeightOfNode c name =
     (case nodeWeights c name of
        None \<Rightarrow> DefaultNodeWeight c
      | Some w \<Rightarrow> if w = 0 then DefaultNodeWeight c else w)
   \<and> (list_all (\<lambda>ev. \<not> event_names name ev) evs \<longrightarrow>
        nodeWeights (deliver evs (NewNodeWeightCache key d)) name = None \<and>
        GetWeightOfNode (deliver evs (NewNodeWeightCache key d)) name = d)"
  by (simp add: GetWeightOfNode_def weight_at_def deliver_unnamed split: option.split)


text \<open>Unfolding the model on concrete payloads.\<close>

lemmas test_eval = test_node_def test_cache_def test_endpoints_def

lemmas cache_eval = OnAdd_def OnUpdate_def nodeWeights_updateNodeWeight resolveNodeWeight_def
  normalizeWeight_def map_index_def weight_at_def cmp_Equal_IgnoreStatus_def Let_def

theorem GetWeightOfNode_lookup_witness:
  "GetWeightOfNode (OnAdd (NodeObj (test_node ''weight-annotation'' ''5'')) (test_cache 1)) ''node1'' = 5
   \<and> GetWeightOfNode (OnAdd (NodeObj (test_node ''weight-annotation'' ''0'')) (test_cache 1)) ''node1'' = 1
   \<and> GetWeightOfNode
        (deliver [EvOnAdd (NodeObj (test_node ''weight-annotation'' ''5''))] (test_cache 1)) ''node2'' = 1"
proof -
  have unseen: "list_all (\<lambda>ev. \<not> event_names ''node2'' ev)
      [EvOnAdd (NodeObj (test_node ''weight-annotation'' ''5''))]"
    by (simp add: test_eval)
  have five: "nodeWeights (OnAdd (NodeObj (test_node ''weight-annotation'' ''5'')) (test_cache 1)) ''node1''
      = Some 5"
    by (simp add: test_eval cache_eval parse_eval)
  have zero: "nodeWeights (OnAdd (NodeObj (test_node ''weight-annotation'' ''0'')) (test_cache 1)) ''node1''
      = None"
    by (simp add: test_eval cache_eval parse_eval)
  show ?thesis
    using unseen five zero
      GetWeightOfNode_lookup [of "OnAdd (NodeObj (test_node ''weight-annotation'' ''5'')) (test_cache 1)"
        "''node1''" "[]" "''weight-annotation''" 1]
      GetWeightOfNode_lookup [of "OnAdd (NodeObj (test_node ''weight-annotation'' ''0'')) (test_cache 1)"
        "''node1''" "[]" "''weight-annotation''" 1]
      GetWeightOfNode_lookup [of "test_cache 1" "''node2''"
        "[EvOnAdd (NodeObj (test_node ''weight-annotation'' ''5''))]" "''weight-annotation''" 1]
    by (simp add: test_cache_def)
qed

section \<open>Adding a node\<close>

lemma GetWeightOfNode_updateNodeWeight:
  "GetWeightOfNode (updateNodeWeight node c) (Name (ObjectMeta node)) =
     (let weight = resolveNodeWeight (ObjectMeta node) (NodeWeightAnnotation c) (DefaultNodeWeight c)
      in if weight = 0 then DefaultNodeWeight c else weight)"
  by (simp add: GetWeightOfNode_def weight_at_updateNodeWeight Let_def)

lemma resolveNodeWeight_parsed:
  assumes "map_index (Annotations meta) key = Some v"
    and "ParseUint_10_32 v = Inr n" and "n \<le> 128"
  shows "resolveNodeWeight meta key d = word_of_nat n"
proof -
  from assms(3) have "n < 2 ^ 32" by simp
  then have "\<not> 128 < (word_of_nat n :: uint32)"
    using assms(3) by (simp add: word_of_nat_gt_128)
  with assms(1,2) show ?thesis
    by (simp add: resolveNodeWeight_def normalizeWeight_def)
qed

text \<open>
  Claim C4, as the code has it. When the annotation under the configured key parses to
  an integer in the range 1 to 128, \<^verbatim>\<open>GetWeightOfNode\<close> after \<^verbatim>\<open>OnAdd\<close>
  returns that integer; when it parses to 0, \<^verbatim>\<open>GetWeightOfNode\<close> returns the
  configured default, because a weight of 0 reads as no weight.
\<close>

theorem OnAdd_then_GetWeightOfNode:
  assumes "map_index (Annotations (ObjectMeta node)) (NodeWeightAnnotation c) = Some v"
    and "ParseUint_10_32 v = Inr n" and "n \<le> 128"
  shows "GetWeightOfNode (OnAdd (NodeObj node) c) (Name (ObjectMeta node)) =
     (if n = 0 then DefaultNodeWeight c else word_of_nat n)"
proof -
  have "n < 2 ^ 32" using assms(3) by simp
  then have "((word_of_nat n :: uint32) = 0) = (n = 0)" by (rule word_of_nat_eq_0)
  moreover have "GetWeightOfNode (OnAdd (NodeObj node) c) (Name (ObjectMeta node)) =
      GetWeightOfNode (updateNodeWeight node c) (Name (ObjectMeta node))"
    by (simp add: OnAdd_def GetWeightOfNode_def Let_def)
  ultimately show ?thesis
    by (simp add: GetWeightOfNode_updateNodeWeight resolveNodeWeight_parsed [OF assms])
qed

theorem OnAdd_then_GetWeightOfNode_witness:
  "GetWeightOfNode (OnAdd (NodeObj (test_node ''weight-annotation'' ''128'')) (test_cache 1)) ''node1'' = 128
   \<and> GetWeightOfNode (OnAdd (NodeObj (test_node ''weight-annotation'' ''0'')) (test_cache 7)) ''node1'' = 7"
proof -
  have a: "map_index (Annotations (ObjectMeta (test_node ''weight-annotation'' v)))
      (NodeWeightAnnotation (test_cache d)) = Some v" for v d
    by (simp add: test_eval map_index_def)
  have p128: "ParseUint_10_32 ''128'' = Inr 128" by (simp add: parse_eval)
  have p0: "ParseUint_10_32 ''0'' = Inr 0" by (simp add: parse_eval)
  show ?thesis
    using OnAdd_then_GetWeightOfNode [OF a p128, of 1] OnAdd_then_GetWeightOfNode [OF a p0, of 7]
    by (simp add: test_eval)
qed

text \<open>
  The annotation \<^verbatim>\<open>"0"\<close> parses to 0, and with the default 1 the weight read after
  the add is 1, not 0.
\<close>

theorem zero_annotation_reads_default_counterexample:
  "ParseUint_10_32 ''0'' = Inr 0
   \<and> GetWeightOfNode (OnAdd (NodeObj (test_node ''weight-annotation'' ''0'')) (test_cache 1)) ''node1'' = 1
   \<and> GetWeightOfNode (OnAdd (NodeObj (test_node ''weight-annotation'' ''0'')) (test_cache 1)) ''node1'' \<noteq> 0"
  by (simp add: GetWeightOfNode_def test_eval cache_eval parse_eval)

section \<open>The bound on stored weights\<close>

lemma normalizeWeight_bound: "normalizeWeight w d \<le> 128 \<or> normalizeWeight w d = d"
  by (simp add: normalizeWeight_def not_less)

lemma resolveNodeWeight_bound:
  "resolveNodeWeight meta key d \<le> 128 \<or> resolveNodeWeight meta key d = d"
  by (simp add: resolveNodeWeight_def Let_def normalizeWeight_bound)

lemma weights_ok_updateNodeWeight:
  assumes "weights_ok c"
  shows "weights_ok (updateNodeWeight node c)"
  using assms
    resolveNodeWeight_bound [of "ObjectMeta node" "NodeWeightAnnotation c" "DefaultNodeWeight c"]
  by (auto simp: weights_ok_def nodeWeights_updateNodeWeight Let_def)

lemma weights_ok_deleteNodeWeight: "weights_ok c \<Longrightarrow> weights_ok (deleteNodeWeight node c)"
  by (auto simp: weights_ok_def)

lemma weights_ok_call_Next [simp]: "weights_ok (call_Next k c) = weights_ok c"
  by (simp add: weights_ok_def)

lemma weights_ok_Errorf [simp]: "weights_ok (Errorf d c) = weights_ok c"
  by (simp add: weights_ok_def)

lemma weights_ok_OnAdd: "weights_ok c \<Longrightarrow> weights_ok (OnAdd obj c)"
  by (cases obj) (simp_all add: OnAdd_def weights_ok_updateNodeWeight)

lemma weights_ok_OnUpdate: "weights_ok c \<Longrightarrow> weights_ok (OnUpdate oldObj newObj c)"
  by (cases newObj) (simp_all add: OnUpdate_def weights_ok_updateNodeWeight)

lemma weights_ok_OnDelete: "weights_ok c \<Longrightarrow> weights_ok (OnDelete obj c)"
  by (induction obj arbitrary: c) (simp_all add: weights_ok_deleteNodeWeight)

lemma weights_ok_dispatch: "weights_ok c \<Longrightarrow> weights_ok (dispatch ev c)"
  by (cases ev) (simp_all add: weights_ok_OnAdd weights_ok_OnUpdate weights_ok_OnDelete)

lemma weights_ok_deliver: "weights_ok c \<Longrightarrow> weights_ok (deliver evs c)"
  by (induction evs arbitrary: c) (simp_all add: deliver_def weights_ok_dispatch)

lemma weights_ok_New: "weights_ok (NewNodeWeightCache key d)"
  by (simp add: weights_ok_def)

text \<open>
  Claim C5, as the code has it. A new cache satisfies the bound, and \<^verbatim>\<open>OnAdd\<close>,
  \<^verbatim>\<open>OnUpdate\<close> and \<^verbatim>\<open>OnDelete\<close> preserve it, for every annotation key and every
  default (\<^verbatim>\<open>GetWeightOfNode\<close> does not write): every stored weight is at most 128 or
  is the configured default. So after any run of events every stored weight is in the
  range 0 to 128 when the configured default is at most 128; a default above 128 is not
  normalised and can be stored.
\<close>

theorem stored_weights_bounded_or_default:
  "weights_ok (NewNodeWeightCache key d)
   \<and> (weights_ok c \<longrightarrow>
        weights_ok (OnAdd obj c) \<and> weights_ok (OnUpdate oldObj newObj c) \<and> weights_ok (OnDelete obj c))
   \<and> weights_ok (deliver evs (NewNodeWeightCache key d))
   \<and> (d \<le> 128 \<and> nodeWeights (deliver evs (NewNodeWeightCache key d)) name = Some w \<longrightarrow> w \<le> 128)"
proof -
  have run: "weights_ok (deliver evs (NewNodeWeightCache key d))"
    by (rule weights_ok_deliver [OF weights_ok_New])
  then have "d \<le> 128 \<and> nodeWeights (deliver evs (NewNodeWeightCache key d)) name = Some w \<longrightarrow> w \<le> 128"
    by (auto simp: weights_ok_def)
  with run show ?thesis
    by (simp add: weights_ok_New weights_ok_OnAdd weights_ok_OnUpdate weights_ok_OnDelete)
qed

theorem stored_weights_bounded_or_default_witness:
  "weights_ok (OnAdd (NodeObj (test_node ''weight-annotation'' ''5'')) (test_cache 1))
   \<and> nodeWeights (deliver [EvOnAdd (NodeObj (test_node ''weight-annotation'' ''5''))] (test_cache 1))
        ''node1'' = Some 5
   \<and> (5 :: uint32) \<le> 128"
proof -
  have five: "nodeWeights (deliver [EvOnAdd (NodeObj (test_node ''weight-annotation'' ''5''))] (test_cache 1))
        ''node1'' = Some 5"
    by (simp add: deliver_def test_eval cache_eval parse_eval)
  have d: "(1 :: uint32) \<le> 128" by simp
  show ?thesis
    using five d
      stored_weights_bounded_or_default [of "''weight-annotation''" 1 "test_cache 1"
        "NodeObj (test_node ''weight-annotation'' ''5'')" "OtherObj []" "OtherObj []"
        "[EvOnAdd (NodeObj (test_node ''weight-annotation'' ''5''))]" "''node1''" 5]
    by (simp add: test_cache_def)
qed

text \<open>
  With the default 500, the out-of-range annotation \<^verbatim>\<open>"10000"\<close> collapses to the
  default, and 500 is stored.
\<close>

theorem default_above_128_stored_counterexample:
  "nodeWeights (OnAdd (NodeObj (test_node ''weight-annotation'' ''10000'')) (test_cache 500)) ''node1''
     = Some 500
   \<and> \<not> (500 :: uint32) \<le> 128"
  by (simp add: test_eval cache_eval parse_eval)

section \<open>Updates\<close>

lemma cmp_Equal_IgnoreStatus_not_node: "\<not> is_node oldObj \<Longrightarrow> \<not> cmp_Equal_IgnoreStatus oldObj node"
  by (cases oldObj) (simp_all add: cmp_Equal_IgnoreStatus_def)

lemma OnUpdate_differing:
  "\<not> cmp_Equal_IgnoreStatus oldObj node \<Longrightarrow>
   OnUpdate oldObj (NodeObj node) c =
     call_Next (CallOnUpdate oldObj (NodeObj node)) (updateNodeWeight node c)"
  by (simp add: OnUpdate_def)

lemma OnUpdate_equal:
  "cmp_Equal_IgnoreStatus oldObj node \<Longrightarrow>
   OnUpdate oldObj (NodeObj node) c = call_Next (CallOnUpdate oldObj (NodeObj node)) c"
  by (simp add: OnUpdate_def)

lemma OnUpdate_not_node:
  "\<not> is_node newObj \<Longrightarrow>
   OnUpdate oldObj newObj c =
     call_Next (CallOnUpdate oldObj newObj) (Errorf (UnexpectedOnUpdate newObj) c)"
  by (cases newObj) (simp_all add: OnUpdate_def)

text \<open>
  Claim C6, as the code has it. When the new payload of an \<^verbatim>\<open>OnUpdate\<close> is not a
  node snapshot, whatever the old payload is, the weight table is left untouched, one
  diagnostic is logged and the event is forwarded downstream. When the old payload is
  not a node snapshot and the new one is, the two compare as different: the weight
  resolved from the new snapshot is written as \<^verbatim>\<open>OnAdd\<close> would write it, nothing is
  logged, and the event is forwarded downstream.
\<close>

theorem OnUpdate_mismatched_types:
  "(\<not> is_node newObj \<longrightarrow>
      nodeWeights (OnUpdate oldObj newObj c) = nodeWeights c
      \<and> FieldLogger (OnUpdate oldObj newObj c) = FieldLogger c @ [UnexpectedOnUpdate newObj]
      \<and> Next (OnUpdate oldObj newObj c)
          = map_option (\<lambda>received. received @ [CallOnUpdate oldObj newObj]) (Next c))
   \<and> (\<not> is_node oldObj \<longrightarrow>
      nodeWeights (OnUpdate oldObj (NodeObj node) c) = nodeWeights (OnAdd (NodeObj node) c)
      \<and> FieldLogger (OnUpdate oldObj (NodeObj node) c) = FieldLogger c
      \<and> Next (OnUpdate oldObj (NodeObj node) c)
          = map_option (\<lambda>received. received @ [CallOnUpdate oldObj (NodeObj node)]) (Next c))"
  by (simp add: OnUpdate_not_node OnUpdate_differing cmp_Equal_IgnoreStatus_not_node OnAdd_def)

text \<open>
  The repository's test \<^verbatim>\<open>wrong old type updated\<close>: the cache holds 10 for
  \<^verbatim>\<open>node1\<close>, the old payload is an endpoints object and the new one a node annotated
  5. The table is written (the weight becomes 5) and no diagnostic is logged.
\<close>

theorem wrong_old_type_updated_counterexample:
  "\<not> is_node test_endpoints
   \<and> nodeWeights (OnAdd (NodeObj (test_node ''weight-annotation'' ''10'')) (test_cache 1)) ''node1''
       = Some 10
   \<and> nodeWeights
        (OnUpdate test_endpoints (NodeObj (test_node ''weight-annotation'' ''5''))
          (OnAdd (NodeObj (test_node ''weight-annotation'' ''10'')) (test_cache 1))) ''node1''
       = Some 5
   \<and> FieldLogger
        (OnUpdate test_endpoints (NodeObj (test_node ''weight-annotation'' ''5''))
          (OnAdd (NodeObj (test_node ''weight-annotation'' ''10'')) (test_cache 1)))
       = []"
  by (simp add: test_eval cache_eval parse_eval)

theorem OnUpdate_mismatched_types_witness:
  "nodeWeights
     (OnUpdate (NodeObj (test_node ''weight-annotation'' ''10'')) test_endpoints
       (OnAdd (NodeObj (test_node ''weight-annotation'' ''5'')) (test_cache 1))) ''node1''
     = Some 5
   \<and> FieldLogger
       (OnUpdate (NodeObj (test_node ''weight-annotation'' ''10'')) test_endpoints
         (OnAdd (NodeObj (test_node ''weight-annotation'' ''5'')) (test_cache 1)))
     = [UnexpectedOnUpdate test_endpoints]
   \<and> nodeWeights
       (OnUpdate test_endpoints (NodeObj (test_node ''weight-annotation'' ''5''))
         (OnAdd (NodeObj (test_node ''weight-annotation'' ''10'')) (test_cache 1))) ''node1''
     = Some 5"
proof -
  let ?n5 = "test_node ''weight-annotation'' ''5''"
  let ?n10 = "test_node ''weight-annotation'' ''10''"
  have e: "\<not> is_node test_endpoints" by (simp add: test_endpoints_def)
  have five: "nodeWeights (OnAdd (NodeObj ?n5) (test_cache 1)) ''node1'' = Some 5"
    by (simp add: test_eval cache_eval parse_eval)
  have log: "FieldLogger (OnAdd (NodeObj ?n5) (test_cache 1)) = []"
    by (simp add: test_eval OnAdd_def)
  have again: "nodeWeights (OnAdd (NodeObj ?n5) (OnAdd (NodeObj ?n10) (test_cache 1))) ''node1'' = Some 5"
    by (simp add: test_eval cache_eval parse_eval)
  from e OnUpdate_mismatched_types [where newObj = test_endpoints and oldObj = "NodeObj ?n10"
      and c = "OnAdd (NodeObj ?n5) (test_cache 1)"]
  have new_wrong:
    "nodeWeights (OnUpdate (NodeObj ?n10) test_endpoints (OnAdd (NodeObj ?n5) (test_cache 1)))
       = nodeWeights (OnAdd (NodeObj ?n5) (test_cache 1))"
    "FieldLogger (OnUpdate (NodeObj ?n10) test_endpoints (OnAdd (NodeObj ?n5) (test_cache 1)))
       = FieldLogger (OnAdd (NodeObj ?n5) (test_cache 1)) @ [UnexpectedOnUpdate test_endpoints]"
    by blast+
  from e OnUpdate_mismatched_types [where oldObj = test_endpoints and node = ?n5
      and c = "OnAdd (NodeObj ?n10) (test_cache 1)"]
  have old_wrong:
    "nodeWeights (OnUpdate test_endpoints (NodeObj ?n5) (OnAdd (NodeObj ?n10) (test_cache 1)))
       = nodeWeights (OnAdd (NodeObj ?n5) (OnAdd (NodeObj ?n10) (test_cache 1)))"
    by blast
  show ?thesis
    by (simp only: new_wrong old_wrong five log again append_Nil simp_thms)
qed

section \<open>Creating and overwriting entries\<close>

lemma nodeWeights_updateNodeWeight_absent:
  "nodeWeights c (Name (ObjectMeta node)) = None \<Longrightarrow>
   nodeWeights (updateNodeWeight node c) =
     (let weight = resolveNodeWeight (ObjectMeta node) (NodeWeightAnnotation c) (DefaultNodeWeight c)
      in if weight = 0 then nodeWeights c else (nodeWeights c)(Name (ObjectMeta node) \<mapsto> weight))"
  by (auto simp: nodeWeights_updateNodeWeight weight_at_def Let_def)

lemma nodeWeights_updateNodeWeight_stored:
  "nodeWeights c (Name (ObjectMeta node)) = Some w \<Longrightarrow>
   nodeWeights (updateNodeWeight node c) =
     (nodeWeights c)(Name (ObjectMeta node) \<mapsto>
        resolveNodeWeight (ObjectMeta node) (NodeWeightAnnotation c) (DefaultNodeWeight c))"
  by (auto simp: nodeWeights_updateNodeWeight weight_at_def Let_def map_upd_triv)

text \<open>
  Claim C7, as the code has it. When the weight table has no entry for a node's name, as
  is the case for the first event that carries the name, an \<^verbatim>\<open>OnAdd\<close> of the node, or
  an \<^verbatim>\<open>OnUpdate\<close> whose payloads compare as different, creates an entry holding the
  resolved weight if that weight is not 0, and changes no other entry. If the resolved
  weight is 0 it equals what a missing entry reads as, nothing is written and the whole
  table is left as it was, still without an entry for the name.
\<close>

theorem first_event_creates_entry:
  assumes "nodeWeights c (Name (ObjectMeta node)) = None"
  shows "nodeWeights (OnAdd (NodeObj node) c) =
      (if resolveNodeWeight (ObjectMeta node) (NodeWeightAnnotation c) (DefaultNodeWeight c) = 0
       then nodeWeights c
       else (nodeWeights c)(Name (ObjectMeta node) \<mapsto>
              resolveNodeWeight (ObjectMeta node) (NodeWeightAnnotation c) (DefaultNodeWeight c)))
    \<and> (\<not> cmp_Equal_IgnoreStatus oldObj node \<longrightarrow>
        nodeWeights (OnUpdate oldObj (NodeObj node) c) =
          (if resolveNodeWeight (ObjectMeta node) (NodeWeightAnnotation c) (DefaultNodeWeight c) = 0
           then nodeWeights c
           else (nodeWeights c)(Name (ObjectMeta node) \<mapsto>
                  resolveNodeWeight (ObjectMeta node) (NodeWeightAnnotation c) (DefaultNodeWeight c))))
    \<and> (nodeWeights (OnAdd (NodeObj node) c) (Name (ObjectMeta node)) = None)
        = (resolveNodeWeight (ObjectMeta node) (NodeWeightAnnotation c) (DefaultNodeWeight c) = 0)"
  using assms nodeWeights_updateNodeWeight_absent [OF assms]
  by (simp add: OnAdd_def OnUpdate_differing Let_def)

theorem first_event_creates_entry_witness:
  "nodeWeights (OnAdd (NodeObj (test_node ''weight-annotation'' ''5'')) (test_cache 1))
     = [''node1'' \<mapsto> 5]
   \<and> nodeWeights
       (OnUpdate test_endpoints (NodeObj (test_node ''weight-annotation'' ''7'')) (test_cache 1))
     = [''node1'' \<mapsto> 7]
   \<and> nodeWeights (OnAdd (NodeObj (test_node ''weight-annotation'' ''0'')) (test_cache 1)) = Map.empty"
proof -
  have absent: "nodeWeights (test_cache 1) (Name (ObjectMeta (test_node ''weight-annotation'' v))) = None"
    for v
    by (simp add: test_eval)
  have differ: "\<not> cmp_Equal_IgnoreStatus test_endpoints (test_node ''weight-annotation'' ''7'')"
    by (simp add: test_eval cmp_Equal_IgnoreStatus_def)
  have r5: "resolveNodeWeight (ObjectMeta (test_node ''weight-annotation'' ''5''))
      (NodeWeightAnnotation (test_cache 1)) (DefaultNodeWeight (test_cache 1)) = 5"
    by (simp add: test_eval cache_eval parse_eval)
  have r7: "resolveNodeWeight (ObjectMeta (test_node ''weight-annotation'' ''7''))
      (NodeWeightAnnotation (test_cache 1)) (DefaultNodeWeight (test_cache 1)) = 7"
    by (simp add: test_eval cache_eval parse_eval)
  have r0: "resolveNodeWeight (ObjectMeta (test_node ''weight-annotation'' ''0''))
      (NodeWeightAnnotation (test_cache 1)) (DefaultNodeWeight (test_cache 1)) = 0"
    by (simp add: test_eval cache_eval parse_eval)
  have name: "Name (ObjectMeta (test_node ''weight-annotation'' v)) = ''node1''" for v
    by (simp add: test_eval)
  have empty: "nodeWeights (test_cache 1) = Map.empty"
    by (simp add: test_eval)
  from first_event_creates_entry [OF absent, of "''5''" test_endpoints]
  have five: "nodeWeights (OnAdd (NodeObj (test_node ''weight-annotation'' ''5'')) (test_cache 1))
      = [''node1'' \<mapsto> 5]"
    by (simp add: r5 name empty)
  from first_event_creates_entry [OF absent, of "''7''" test_endpoints] differ
  have seven: "nodeWeights
       (OnUpdate test_endpoints (NodeObj (test_node ''weight-annotation'' ''7'')) (test_cache 1))
     = [''node1'' \<mapsto> 7]"
    by (simp add: r7 name empty)
  from first_event_creates_entry [OF absent, of "''0''" test_endpoints]
  have zero: "nodeWeights (OnAdd (NodeObj (test_node ''weight-annotation'' ''0'')) (test_cache 1))
      = Map.empty"
    by (simp add: r0 empty)
  from five seven zero show ?thesis by simp
qed

text \<open>
  The first add of a node annotated \<^verbatim>\<open>"0"\<close>: the resolved weight is 0 and the table
  has no entry for the node afterwards.
\<close>

theorem zero_weight_creates_no_entry_counterexample:
  "nodeWeights (test_cache 1) ''node1'' = None
   \<and> resolveNodeWeight (ObjectMeta (test_node ''weight-annotation'' ''0'')) ''weight-annotation'' 1 = 0
   \<and> nodeWeights (OnAdd (NodeObj (test_node ''weight-annotation'' ''0'')) (test_cache 1)) ''node1'' = None"
  by (simp add: test_eval cache_eval parse_eval)

text \<open>
  Claim C8. An \<^verbatim>\<open>OnUpdate\<close> whose new snapshot is the old one with another status
  writes nothing to the weight table. For a node that has an entry, an \<^verbatim>\<open>OnUpdate\<close>
  whose new snapshot has other annotations than the old one leaves the newly resolved
  weight in the node's entry and no other entry changes.
\<close>

theorem OnUpdate_status_only_or_annotation_change:
  "nodeWeights (OnUpdate (NodeObj oldNode) (NodeObj (oldNode\<lparr>Status := s\<rparr>)) c) = nodeWeights c
   \<and> (nodeWeights c (Name (ObjectMeta newNode)) = Some w
        \<and> Annotations (ObjectMeta oldNode) \<noteq> Annotations (ObjectMeta newNode) \<longrightarrow>
      nodeWeights (OnUpdate (NodeObj oldNode) (NodeObj newNode) c) =
        (nodeWeights c)(Name (ObjectMeta newNode) \<mapsto>
           resolveNodeWeight (ObjectMeta newNode) (NodeWeightAnnotation c) (DefaultNodeWeight c)))"
proof -
  have "cmp_Equal_IgnoreStatus (NodeObj oldNode) (oldNode\<lparr>Status := s\<rparr>)"
    by (simp add: cmp_Equal_IgnoreStatus_def)
  then have same: "nodeWeights (OnUpdate (NodeObj oldNode) (NodeObj (oldNode\<lparr>Status := s\<rparr>)) c)
      = nodeWeights c"
    by (simp add: OnUpdate_equal)
  have "nodeWeights (OnUpdate (NodeObj oldNode) (NodeObj newNode) c) =
        (nodeWeights c)(Name (ObjectMeta newNode) \<mapsto>
           resolveNodeWeight (ObjectMeta newNode) (NodeWeightAnnotation c) (DefaultNodeWeight c))"
    if stored: "nodeWeights c (Name (ObjectMeta newNode)) = Some w"
      and changed: "Annotations (ObjectMeta oldNode) \<noteq> Annotations (ObjectMeta newNode)"
  proof -
    from changed have "ObjectMeta oldNode \<noteq> ObjectMeta newNode" by auto
    then have "\<not> cmp_Equal_IgnoreStatus (NodeObj oldNode) newNode"
      by (simp add: cmp_Equal_IgnoreStatus_def)
    then show ?thesis
      by (simp add: OnUpdate_differing nodeWeights_updateNodeWeight_stored [OF stored])
  qed
  with same show ?thesis by blast
qed

theorem OnUpdate_status_only_or_annotation_change_witness:
  "nodeWeights
     (OnUpdate (NodeObj (test_node ''weight-annotation'' ''10''))
        (NodeObj ((test_node ''weight-annotation'' ''10'')\<lparr>Status := ''Ready''\<rparr>))
        (OnAdd (NodeObj (test_node ''weight-annotation'' ''10'')) (test_cache 1))) ''node1'' = Some 10
   \<and> nodeWeights
       (OnUpdate (NodeObj (test_node ''weight-annotation'' ''10''))
          (NodeObj (test_node ''weight-annotation'' ''5''))
          (OnAdd (NodeObj (test_node ''weight-annotation'' ''10'')) (test_cache 1))) ''node1'' = Some 5"
proof -
  let ?n10 = "test_node ''weight-annotation'' ''10''"
  let ?n5 = "test_node ''weight-annotation'' ''5''"
  let ?c = "OnAdd (NodeObj ?n10) (test_cache 1)"
  have stored: "nodeWeights ?c (Name (ObjectMeta ?n5)) = Some 10"
    by (simp add: test_eval cache_eval parse_eval)
  have "[''weight-annotation'' \<mapsto> ''10''] \<noteq> [''weight-annotation'' \<mapsto> ''5'']"
    by (auto dest: map_upd_eqD1)
  then have changed: "Annotations (ObjectMeta ?n10) \<noteq> Annotations (ObjectMeta ?n5)"
    by (simp add: test_eval)
  have r5: "resolveNodeWeight (ObjectMeta ?n5) (NodeWeightAnnotation (test_cache 1))
      (DefaultNodeWeight (test_cache 1)) = 5"
    by (simp add: test_eval cache_eval parse_eval)
  have name: "Name (ObjectMeta ?n5) = ''node1''" "Name (ObjectMeta ?n10) = ''node1''"
    by (simp_all add: test_eval)
  note inst = OnUpdate_status_only_or_annotation_change [of ?n10 "''Ready''" ?c ?n5 10]
  from inst have "nodeWeights (OnUpdate (NodeObj ?n10) (NodeObj (?n10\<lparr>Status := ''Ready''\<rparr>)) ?c) ''node1''
      = nodeWeights ?c ''node1''"
    by simp
  with stored name have a: "nodeWeights (OnUpdate (NodeObj ?n10) (NodeObj (?n10\<lparr>Status := ''Ready''\<rparr>)) ?c)
      ''node1'' = Some 10"
    by simp
  from inst stored changed
  have "nodeWeights (OnUpdate (NodeObj ?n10) (NodeObj ?n5) ?c) =
      (nodeWeights ?c)(Name (ObjectMeta ?n5) \<mapsto>
        resolveNodeWeight (ObjectMeta ?n5) (NodeWeightAnnotation ?c) (DefaultNodeWeight ?c))"
    by blast
  then have b: "nodeWeights (OnUpdate (NodeObj ?n10) (NodeObj ?n5) ?c) ''node1'' = Some 5"
    by (simp add: r5 name)
  from a b show ?thesis by simp
qed

section \<open>Deleting a node\<close>

lemma GetWeightOfNode_absent:
  "nodeWeights c name = None \<Longrightarrow> GetWeightOfNode c name = DefaultNodeWeight c"
  by (simp add: GetWeightOfNode_def weight_at_def)

text \<open>
  Claim C9. \<^verbatim>\<open>OnDelete\<close> of a node snapshot removes the entry of the node's name
  and changes no other entry, whatever weight the entry held; \<^verbatim>\<open>OnDelete\<close> of a
  final-state-unknown wrapper around the snapshot leaves the same table; after
  either, \<^verbatim>\<open>GetWeightOfNode\<close> for the name returns the configured default.
\<close>

theorem OnDelete_removes_entry:
  "nodeWeights (OnDelete (NodeObj node) c) = (nodeWeights c)(Name (ObjectMeta node) := None)
   \<and> nodeWeights (OnDelete (DeletedFinalStateUnknown key (NodeObj node)) c)
       = nodeWeights (OnDelete (NodeObj node) c)
   \<and> GetWeightOfNode (OnDelete (NodeObj node) c) (Name (ObjectMeta node)) = DefaultNodeWeight c
   \<and> GetWeightOfNode (OnDelete (DeletedFinalStateUnknown key (NodeObj node)) c) (Name (ObjectMeta node))
       = DefaultNodeWeight c"
  by (simp add: GetWeightOfNode_absent)

text \<open>
  The repository's tests \<^verbatim>\<open>delete weight from annotation\<close> and
  \<^verbatim>\<open>delete final state unknown\<close>: the node was added with weight 5, the default is 1.
\<close>

lemma delete_tests:
  "GetWeightOfNode (OnAdd (NodeObj (test_node ''weight-annotation'' ''5'')) (test_cache 1)) ''node1'' = 5"
  "GetWeightOfNode
     (OnDelete (NodeObj (test_node ''weight-annotation'' ''5''))
       (OnAdd (NodeObj (test_node ''weight-annotation'' ''5'')) (test_cache 1))) ''node1'' = 1"
  "GetWeightOfNode
     (OnDelete (DeletedFinalStateUnknown ''node1'' (NodeObj (test_node ''weight-annotation'' ''5'')))
       (OnAdd (NodeObj (test_node ''weight-annotation'' ''5'')) (test_cache 1))) ''node1'' = 1"
  by (simp_all add: GetWeightOfNode_def test_eval cache_eval parse_eval)

section \<open>Forwarding to the downstream handler\<close>

lemma OnAdd_forwards_once:
  "Next (OnAdd obj c) = map_option (\<lambda>received. received @ [CallOnAdd obj]) (Next c)"
  by (cases obj) (simp_all add: OnAdd_def)

lemma OnUpdate_forwards_once:
  "Next (OnUpdate oldObj newObj c) =
     map_option (\<lambda>received. received @ [CallOnUpdate oldObj newObj]) (Next c)"
  by (cases newObj) (simp_all add: OnUpdate_def)

lemma OnDelete_forwards:
  "Next (OnDelete obj c) = map_option (\<lambda>received. received @ delete_calls obj) (Next c)"
  by (induction obj arbitrary: c) (simp_all add: option.map_comp comp_def)

lemma delete_calls_last: "last (delete_calls obj) = CallOnDelete obj"
  by (cases obj) simp_all

lemma delete_calls_nonempty [simp]: "delete_calls obj \<noteq> []"
  by (cases obj) simp_all

lemma delete_calls_once:
  "length (delete_calls obj) = 1 \<longleftrightarrow> (\<forall>key inner. obj \<noteq> DeletedFinalStateUnknown key inner)"
  by (cases obj) simp_all

lemma delete_calls_tombstone:
  "delete_calls (DeletedFinalStateUnknown key (NodeObj node)) =
     [CallOnDelete (NodeObj node), CallOnDelete (DeletedFinalStateUnknown key (NodeObj node))]"
  by simp

text \<open>
  Claim C1 at the repository's test \<^verbatim>\<open>delete final state unknown\<close>. The node was
  added, then a recording handler is set as \<^verbatim>\<open>Next\<close>, then the tombstone is
  deleted. The handler receives two \<^verbatim>\<open>OnDelete\<close> calls: first one with the inner
  node, made by the recursive call, then one with the wrapper.
\<close>

theorem tombstone_delete_forwards_twice:
  "Next
     (OnDelete (DeletedFinalStateUnknown ''node1'' (NodeObj (test_node ''weight-annotation'' ''5'')))
       ((OnAdd (NodeObj (test_node ''weight-annotation'' ''5'')) (test_cache 1))\<lparr>Next := Some []\<rparr>))
   = Some [CallOnDelete (NodeObj (test_node ''weight-annotation'' ''5'')),
           CallOnDelete
             (DeletedFinalStateUnknown ''node1'' (NodeObj (test_node ''weight-annotation'' ''5'')))]"
  by (simp add: OnDelete_forwards)

section \<open>Building endpoints\<close>

text \<open>
  Claim C10. The endpoint \<^verbatim>\<open>WeightedLBEndpoint\<close> builds has the given address; its
  \<^verbatim>\<open>LoadBalancingWeight\<close> is the wrapped weight when the weight is positive and is
  unset when the weight is 0; \<^verbatim>\<open>LBEndpoint\<close> builds what \<^verbatim>\<open>WeightedLBEndpoint\<close>
  builds for the weight 0.
\<close>

theorem WeightedLBEndpoint_fields:
  "endpoint_address (WeightedLBEndpoint UInt32 weight addr) = Some addr
   \<and> HostIdentifier (WeightedLBEndpoint UInt32 weight addr)
       = Some (LbEndpoint_Endpoint \<lparr>Address = addr\<rparr>)
   \<and> LoadBalancingWeight (WeightedLBEndpoint UInt32 weight addr)
       = (if 0 < weight then Some (UInt32 weight) else None)
   \<and> ((LoadBalancingWeight (WeightedLBEndpoint UInt32 weight addr) = Some (UInt32 weight)) = (0 < weight))
   \<and> ((LoadBalancingWeight (WeightedLBEndpoint UInt32 weight addr) = None) = (weight = 0))
   \<and> LBEndpoint UInt32 addr = WeightedLBEndpoint UInt32 0 addr"
  by (simp add: WeightedLBEndpoint_def LBEndpoint_def NoWeight_def endpoint_address_def Let_def
      word_greater_zero_iff)

end
